theory Spec2Isabelle
  imports Complex_Main "HOL-Library.Multiset"
begin

section \<open>Data model of app.py\<close>

text \<open>
  app.py is a script: it loads a table with pandas, cleans and labels it, splits it with
  scikit-learn, fits a logistic regression, evaluates it, and then serves two Dash
  callbacks. The table is modelled row-wise. A cell is a 64-bit float in pandas; it is
  modelled by the real number it denotes, with \<open>None\<close> for NaN (a missing value).
  A row carries its pandas index label, which \<open>dropna\<close> and the split preserve.
\<close>

type_synonym cell = "real option"

type_synonym row = "nat \<times> cell list"

record dataframe =
  columns :: "string list"
  rows :: "row list"

text \<open>
  Exceptions. \<open>ValueError\<close> and \<open>KeyError\<close> are the Python exceptions that the libraries
  called by app.py raise. \<open>InvalidInputError\<close> and \<open>UnknownFeatureError\<close> are the error
  kinds named by the specification; no statement of app.py raises or defines them.
\<close>

datatype error = ValueError | KeyError | InvalidInputError | UnknownFeatureError

subsection \<open>Loading and cleaning (app.py lines 22-28)\<close>

text \<open>
  Modelled from the spec: the header of data/winequality-red.csv. The data file is not
  part of the sources; section 6 of the specification gives its twelve column names.
\<close>

definition csv_header :: "string list" where
  "csv_header =
     [''fixed acidity'', ''volatile acidity'', ''citric acid'', ''residual sugar'',
      ''chlorides'', ''free sulfur dioxide'', ''total sulfur dioxide'', ''density'',
      ''pH'', ''sulphates'', ''alcohol'', ''quality'']"

text \<open>
  \<open>pd.read_csv\<close>: the argument is the parsed body of the file, one cell list per line;
  the frame gets the default RangeIndex \<open>0, 1, ...\<close>.
\<close>

definition read_csv :: "cell list list \<Rightarrow> dataframe" where
  "read_csv parsed = \<lparr>columns = csv_header, rows = zip [0..<length parsed] parsed\<rparr>"

text \<open>\<open>data.dropna(inplace=True)\<close>: a row with a missing value in any column goes.\<close>

definition dropna :: "dataframe \<Rightarrow> dataframe" where
  "dropna df = df\<lparr>rows := filter (\<lambda>r. None \<notin> set (snd r)) (rows df)\<rparr>"

text \<open>
  \<open>DataFrame.drop_duplicates(keep='first')\<close>: rows are compared on all column values
  (not on the index label) and the first of each group of equal rows is kept. The method
  returns a new frame and leaves the frame it is called on as it is.
\<close>

fun keep_first :: "cell list list \<Rightarrow> row list \<Rightarrow> row list" where
  "keep_first seen [] = []"
| "keep_first seen (r # rs) =
     (if snd r \<in> set seen then keep_first seen rs
      else r # keep_first (snd r # seen) rs)"

definition drop_duplicates :: "dataframe \<Rightarrow> dataframe" where
  "drop_duplicates df = df\<lparr>rows := keep_first [] (rows df)\<rparr>"

text \<open>
  The cleaning step as the script performs it:
  \<^verbatim>\<open>
  data.dropna(inplace=True)
  data.drop_duplicates(keep='first')
  \<close>
  The second statement is an expression statement: its value is not assigned to \<open>data\<close>
  and \<open>inplace\<close> is not set, so \<open>data\<close> keeps the value \<open>dropna\<close> gave it.
\<close>

definition clean :: "dataframe \<Rightarrow> dataframe" where
  "clean data0 =
     (let data = dropna data0;
          (discarded :: dataframe) = drop_duplicates data
      in data)"

subsection \<open>Label derivation (app.py line 42)\<close>

text \<open>\<open>lambda x: 1 if x >= 6.0 else 0\<close>\<close>

definition quality_label :: "real \<Rightarrow> int" where
  "quality_label x = (if x \<ge> 6.0 then 1 else 0)"

text \<open>
  The lambda applied to a cell: a NaN compares false with everything, so it takes the
  \<open>else\<close> branch.
\<close>

definition apply_label :: "cell \<Rightarrow> cell" where
  "apply_label c = (case c of None \<Rightarrow> Some 0 | Some x \<Rightarrow> Some (real_of_int (quality_label x)))"

fun index_of :: "'a \<Rightarrow> 'a list \<Rightarrow> nat option" where
  "index_of a [] = None"
| "index_of a (x # xs) =
     (if x = a then Some 0 else map_option Suc (index_of a xs))"

text \<open>
  \<open>data['quality'] = data['quality'].apply(...)\<close>: the column named quality is read, the
  lambda is applied to each of its cells, and the result is stored back under the same
  name, so that it takes the place of the column that was read. A frame with no such
  column raises KeyError.
\<close>

definition label_column :: "dataframe \<Rightarrow> error + dataframe" where
  "label_column df =
     (case index_of ''quality'' (columns df) of
        None \<Rightarrow> Inl KeyError
      | Some j \<Rightarrow>
          Inr (df\<lparr>rows := map (\<lambda>r. (fst r, (snd r)[j := apply_label (snd r ! j)])) (rows df)\<rparr>))"

subsection \<open>Features, target and the train/test split (app.py lines 56-61)\<close>

text \<open>\<open>X = data.drop('quality', axis=1)\<close>: the frame without the named column.\<close>

definition drop_column :: "string \<Rightarrow> dataframe \<Rightarrow> error + dataframe" where
  "drop_column name df =
     (case index_of name (columns df) of
        None \<Rightarrow> Inl KeyError
      | Some j \<Rightarrow>
          Inr \<lparr>columns = take j (columns df) @ drop (Suc j) (columns df),
               rows = map (\<lambda>r. (fst r, take j (snd r) @ drop (Suc j) (snd r))) (rows df)\<rparr>)"

text \<open>\<open>y = data['quality']\<close>: the named column as a Series, each cell with its index label.\<close>

definition get_column :: "string \<Rightarrow> dataframe \<Rightarrow> error + (nat \<times> cell) list" where
  "get_column name df =
     (case index_of name (columns df) of
        None \<Rightarrow> Inl KeyError
      | Some j \<Rightarrow> Inr (map (\<lambda>r. (fst r, snd r ! j)) (rows df)))"




subsection \<open>The classifier (app.py lines 66-70)\<close>

text \<open>
  A fitted \<open>LogisticRegression\<close>: one weight per feature (\<open>coef_\<close>) and a bias
  (\<open>intercept_\<close>). The optimiser behind \<open>fit\<close> is floating-point numerical code of
  scikit-learn and is not modelled; the properties below hold for every fitted model.
  The labels that \<open>fit\<close> sees come from the lambda of line 42, and \<open>fit\<close> raises unless
  both occur, so \<open>classes_\<close> of a fitted model is \<open>[0, 1]\<close>.
\<close>

record model =
  coef :: "real list"
  intercept :: real

text \<open>
  Input validation of \<open>predict\<close> (\<open>check_array\<close> and the feature count check of
  scikit-learn): an array with no row, with a NaN, or with a row whose length is not the
  number of features seen by \<open>fit\<close> raises ValueError. numpy turns Python's \<open>None\<close>
  into NaN when the object array is converted to floats, so a \<open>None\<close> cell is a NaN cell.
\<close>

definition validate_data :: "model \<Rightarrow> cell list list \<Rightarrow> error + real list list" where
  "validate_data m X =
     (if X = [] then Inl ValueError
      else
        case those (map those X) of
          None \<Rightarrow> Inl ValueError
        | Some rs \<Rightarrow>
            if list_all (\<lambda>r. length r = length (coef m)) rs then Inr rs
            else Inl ValueError)"

text \<open>\<open>decision_function\<close>: \<open>X @ coef_.T + intercept_\<close>, for one row.\<close>

definition decision_function :: "model \<Rightarrow> real list \<Rightarrow> real" where
  "decision_function m x = sum_list (map2 (*) x (coef m)) + intercept m"

text \<open>
  \<open>predict\<close> for two classes: \<open>classes_[(scores > 0).astype(int)]\<close> with
  \<open>classes_ = [0, 1]\<close>.
\<close>

definition predict :: "model \<Rightarrow> cell list list \<Rightarrow> error + int list" where
  "predict m X =
     (case validate_data m X of
        Inl e \<Rightarrow> Inl e
      | Inr rs \<Rightarrow> Inr (map (\<lambda>x. if decision_function m x > 0 then 1 else 0) rs))"

subsection \<open>The Dash callbacks (app.py lines 203-243)\<close>

text \<open>
  The two module globals that the callbacks read. A callback is modelled as a function
  of these globals and its arguments that returns its result, or the exception that
  leaves it, together with the globals after the call.
\<close>

record service =
  data :: dataframe
  logreg_model :: model

text \<open>
  The part of a plotly figure that depends on the data: the title and, for a scatter
  plot coloured by a numeric column, one (x, y, colour) point per row of the frame, in
  the order of the rows.
\<close>

record figure =
  title :: string
  points :: "(cell \<times> cell \<times> cell) list"

text \<open>
  \<open>px.scatter(data_frame, x=..., y=..., color=...)\<close> with three strings: each must be
  the name of a column of the frame, otherwise plotly raises ValueError
  ("Value of 'x' is not the name of a column in 'data_frame'").
\<close>

definition px_scatter :: "dataframe \<Rightarrow> string \<Rightarrow> string \<Rightarrow> string \<Rightarrow> error + figure" where
  "px_scatter df x y color =
     (case index_of x (columns df) of
        None \<Rightarrow> Inl ValueError
      | Some i \<Rightarrow>
          (case index_of y (columns df) of
             None \<Rightarrow> Inl ValueError
           | Some j \<Rightarrow>
               (case index_of color (columns df) of
                  None \<Rightarrow> Inl ValueError
                | Some k \<Rightarrow>
                    Inr \<lparr>title = [],
                         points = map (\<lambda>r. (snd r ! i, snd r ! j, snd r ! k)) (rows df)\<rparr>)))"

text \<open>
  \<^verbatim>\<open>
  def update_correlation_plot(x_feature, y_feature):
      fig = px.scatter(data, x=x_feature, y=y_feature, color='quality')
      fig.update_layout(title=f"Correlation between {x_feature} and {y_feature}")
      return fig
  \<close>
\<close>

definition update_correlation_plot ::
  "service \<Rightarrow> string \<Rightarrow> string \<Rightarrow> (error + figure) \<times> service" where
  "update_correlation_plot s x_feature y_feature =
     (case px_scatter (data s) x_feature y_feature ''quality'' of
        Inl e \<Rightarrow> (Inl e, s)
      | Inr fig \<Rightarrow>
          (Inr (fig\<lparr>title := ''Correlation between '' @ x_feature @ '' and '' @ y_feature\<rparr>),
           s))"

text \<open>
  \<^verbatim>\<open>
  def predict_quality(n_clicks, fixed_acidity, ..., alcohol):
      input_features = np.array([fixed_acidity, ..., alcohol]).reshape(1, -1)
      prediction = logreg_model.predict(input_features)[0]
      if prediction == 1:
          return 'This wine is predicted to be good quality.'
      else:
          return 'This wine is predicted to be bad quality.'
  \<close>
  Each of the eleven values is the state of a \<open>dcc.Input\<close> of type number: a number, or
  \<open>None\<close> while the field is empty.
\<close>

definition predict_quality ::
  "service \<Rightarrow> int \<Rightarrow> cell \<Rightarrow> cell \<Rightarrow> cell \<Rightarrow> cell \<Rightarrow> cell \<Rightarrow> cell \<Rightarrow> cell \<Rightarrow> cell \<Rightarrow> cell \<Rightarrow>
     cell \<Rightarrow> cell \<Rightarrow> (error + string) \<times> service" where
  "predict_quality s n_clicks fixed_acidity volatile_acidity citric_acid residual_sugar
       chlorides free_sulfur_dioxide total_sulfur_dioxide density ph sulphates alcohol =
     (let input_features =
            [[fixed_acidity, volatile_acidity, citric_acid, residual_sugar, chlorides,
              free_sulfur_dioxide, total_sulfur_dioxide, density, ph, sulphates, alcohol]]
      in case predict (logreg_model s) input_features of
           Inl e \<Rightarrow> (Inl e, s)
         | Inr prediction \<Rightarrow>
             (if prediction ! 0 = 1
              then Inr ''This wine is predicted to be good quality.''
              else Inr ''This wine is predicted to be bad quality.'',
              s))"

subsection \<open>Evaluation metrics (app.py lines 75-83)\<close>

text \<open>
  The metric functions of scikit-learn take the true labels and the predicted labels.
  \<open>_check_targets\<close> raises ValueError when the two have different lengths, when one
  contains NaN, or when the values are not class labels (a float that is not a whole
  number makes the target "continuous").
\<close>

definition check_targets :: "cell list \<Rightarrow> cell list \<Rightarrow> error + real list \<times> real list" where
  "check_targets y_true y_pred =
     (if length y_true \<noteq> length y_pred then Inl ValueError
      else
        case those y_true of
          None \<Rightarrow> Inl ValueError
        | Some t \<Rightarrow>
            (case those y_pred of
               None \<Rightarrow> Inl ValueError
             | Some p \<Rightarrow>
                 if list_all (\<lambda>v. of_int \<lfloor>v\<rfloor> = v) (t @ p) then Inr (t, p)
                 else Inl ValueError))"

text \<open>
  \<open>accuracy_score\<close>: the mean of \<open>y_true == y_pred\<close>. The mean of an empty array is
  NaN in numpy (with a warning).
\<close>

definition accuracy_score :: "cell list \<Rightarrow> cell list \<Rightarrow> error + cell" where
  "accuracy_score y_true y_pred =
     (case check_targets y_true y_pred of
        Inl e \<Rightarrow> Inl e
      | Inr (t, p) \<Rightarrow>
          if t = [] then Inr None
          else Inr (Some (real (length (filter (\<lambda>ab. fst ab = snd ab) (zip t p))) /
                          real (length t))))"

text \<open>
  \<open>precision_score\<close>, \<open>recall_score\<close> and \<open>f1_score\<close> are called with their defaults
  \<open>average='binary'\<close>, \<open>pos_label=1\<close> and \<open>zero_division='warn'\<close>.
  \<open>_check_set_wise_labels\<close> raises ValueError when the labels present in \<open>y_true\<close> and
  \<open>y_pred\<close> together are more than two (a multiclass target), or are two and do not
  include \<open>pos_label\<close>.
\<close>

definition check_set_wise_labels :: "real list \<Rightarrow> real list \<Rightarrow> error + unit" where
  "check_set_wise_labels t p =
     (let present_labels = remdups (t @ p)
      in if length present_labels > 2 then Inl ValueError
         else if 1 \<notin> set present_labels \<and> length present_labels \<ge> 2 then Inl ValueError
         else Inr ())"

text \<open>
  The counts for the label 1: \<open>tp_sum\<close> samples are 1 in both, \<open>pred_sum\<close> are predicted
  1, \<open>true_sum\<close> are truly 1.
\<close>

definition tp_sum :: "real list \<Rightarrow> real list \<Rightarrow> nat" where
  "tp_sum t p = length (filter (\<lambda>ab. fst ab = 1 \<and> snd ab = 1) (zip t p))"

definition pred_sum :: "real list \<Rightarrow> nat" where
  "pred_sum p = length (filter (\<lambda>b. b = 1) p)"

definition true_sum :: "real list \<Rightarrow> nat" where
  "true_sum t = length (filter (\<lambda>a. a = 1) t)"

text \<open>
  \<open>_prf_divide\<close> with \<open>zero_division='warn'\<close>: where the denominator is 0 it is replaced
  by 1, so the quotient there is \<open>0.0\<close>, and a warning is issued; nothing is raised and
  the result is not NaN.
\<close>

definition prf_divide :: "nat \<Rightarrow> nat \<Rightarrow> real" where
  "prf_divide numerator denominator =
     (if denominator = 0 then 0 else real numerator / real denominator)"

definition precision_score :: "cell list \<Rightarrow> cell list \<Rightarrow> error + cell" where
  "precision_score y_true y_pred =
     (case check_targets y_true y_pred of
        Inl e \<Rightarrow> Inl e
      | Inr (t, p) \<Rightarrow>
          (case check_set_wise_labels t p of
             Inl e \<Rightarrow> Inl e
           | Inr u \<Rightarrow> Inr (Some (prf_divide (tp_sum t p) (pred_sum p)))))"

definition recall_score :: "cell list \<Rightarrow> cell list \<Rightarrow> error + cell" where
  "recall_score y_true y_pred =
     (case check_targets y_true y_pred of
        Inl e \<Rightarrow> Inl e
      | Inr (t, p) \<Rightarrow>
          (case check_set_wise_labels t p of
             Inl e \<Rightarrow> Inl e
           | Inr u \<Rightarrow> Inr (Some (prf_divide (tp_sum t p) (true_sum t)))))"

text \<open>
  \<open>f1_score\<close>: the harmonic mean of precision and recall,
  \<^verbatim>\<open>
  denom = beta2 * precision + recall
  denom[denom == 0.0] = 1  # avoid division by 0
  f_score = (1 + beta2) * precision * recall / denom
  \<close>
  with \<open>beta2 = 1\<close>. (Later releases compute \<open>2 * tp / (true_sum + pred_sum)\<close> through
  \<open>_prf_divide\<close>, which is the same number.)
\<close>

definition f1_score :: "cell list \<Rightarrow> cell list \<Rightarrow> error + cell" where
  "f1_score y_true y_pred =
     (case check_targets y_true y_pred of
        Inl e \<Rightarrow> Inl e
      | Inr (t, p) \<Rightarrow>
          (case check_set_wise_labels t p of
             Inl e \<Rightarrow> Inl e
           | Inr u \<Rightarrow>
               let precision = prf_divide (tp_sum t p) (pred_sum p);
                   recall = prf_divide (tp_sum t p) (true_sum t);
                   denom = (if precision + recall = 0 then 1 else precision + recall)
               in Inr (Some (2 * precision * recall / denom))))"

subsection \<open>ROC curve and AUC (app.py lines 92-93)\<close>













subsection \<open>Concrete inputs\<close>

text \<open>
  Four lines of a wine file: the second repeats the first, the fourth has no value for
  alcohol.
\<close>

definition scenario_A :: "cell list list" where
  "scenario_A =
     [[Some 7.4, Some 0.7, Some 0, Some 1.9, Some 0.076, Some 11, Some 34, Some 0.9978,
       Some 3.51, Some 0.56, Some 9.4, Some 5],
      [Some 7.4, Some 0.7, Some 0, Some 1.9, Some 0.076, Some 11, Some 34, Some 0.9978,
       Some 3.51, Some 0.56, Some 9.4, Some 5],
      [Some 7.8, Some 0.88, Some 0, Some 2.6, Some 0.098, Some 25, Some 67, Some 0.9968,
       Some 3.2, Some 0.68, Some 9.8, Some 5],
      [Some 11.2, Some 0.28, Some 0.56, Some 1.9, Some 0.075, Some 17, Some 60, Some 0.998,
       Some 3.16, Some 0.58, None, Some 6]]"



text \<open>
  A fitted model for concrete evaluations: only alcohol has a weight, and the decision
  score is positive exactly for alcohol above 10.
\<close>

definition demo_model :: model where
  "demo_model = \<lparr>coef = [0, 0, 0, 0, 0, 0, 0, 0, 0, 0, 1], intercept = - 10\<rparr>"

text \<open>A file with two lines, of raw quality 5 and 7.\<close>

definition two_wines :: "cell list list" where
  "two_wines =
     [[Some 7.4, Some 0.7, Some 0, Some 1.9, Some 0.076, Some 11, Some 34, Some 0.9978,
       Some 3.51, Some 0.56, Some 9.4, Some 5],
      [Some 7.3, Some 0.65, Some 0, Some 1.2, Some 0.065, Some 15, Some 21, Some 0.9946,
       Some 3.39, Some 0.47, Some 12.8, Some 7]]"

text \<open>The frame that the script holds in \<open>data\<close> after line 42 when it has loaded \<open>two_wines\<close>.\<close>

definition two_wines_labelled :: dataframe where
  "two_wines_labelled =
     \<lparr>columns = csv_header,
      rows =
        [(0, [Some 7.4, Some 0.7, Some 0, Some 1.9, Some 0.076, Some 11, Some 34, Some 0.9978,
              Some 3.51, Some 0.56, Some 9.4, Some 0]),
         (1, [Some 7.3, Some 0.65, Some 0, Some 1.2, Some 0.065, Some 15, Some 21, Some 0.9946,
              Some 3.39, Some 0.47, Some 12.8, Some 1])]\<rparr>"

definition demo_service :: service where
  "demo_service = \<lparr>data = two_wines_labelled, logreg_model = demo_model\<rparr>"



section \<open>Properties\<close>

text \<open>The cleaning step does remove every row with a missing value.\<close>

lemma dropna_no_missing: "r \<in> set (rows (dropna df)) \<Longrightarrow> None \<notin> set (snd r)"
  by (simp add: dropna_def)

lemma clean_eq_dropna: "clean df = dropna df"
  by (simp add: clean_def)

text \<open>
  Claim C2. For every raw quality score \<open>q\<close> the derived label is 1 exactly when
  \<open>q \<ge> 6.0\<close> and 0 exactly when \<open>q < 6.0\<close>; at the boundary, 6.0 gives 1 and 5.999 gives 0.
\<close>

theorem quality_label_threshold:
  "(quality_label q = 1) = (6 \<le> q) \<and> (quality_label q = 0) = (q < 6) \<and>
   quality_label 6 = 1 \<and> quality_label (5999 / 1000) = 0"
  by (simp add: quality_label_def)

lemma upt_4: "[0..<4] = [0, 1, 2, 3]"
  by (simp add: upt_rec)

text \<open>
  Claim C1 (the cleaning step, evaluated). On the four lines of \<open>scenario_A\<close> the
  cleaning step of the script returns three records, of which the first two have equal
  values in every field; \<open>drop_duplicates\<close> applied to the same frame would return two.
  The row with the missing value is gone.
\<close>

theorem clean_scenario_A_keeps_duplicate:
  "length (rows (clean (read_csv scenario_A))) = 3 \<and>
   length (rows (clean (read_csv scenario_A))) \<noteq> 2 \<and>
   snd (rows (clean (read_csv scenario_A)) ! 0) = snd (rows (clean (read_csv scenario_A)) ! 1) \<and>
   length (rows (drop_duplicates (dropna (read_csv scenario_A)))) = 2"
  by (simp add: clean_def dropna_def drop_duplicates_def read_csv_def scenario_A_def upt_4)

lemma index_of_quality: "index_of ''quality'' csv_header = Some 11"
  by (simp add: csv_header_def)



lemma columns_clean: "columns (clean (read_csv parsed)) = csv_header"
  by (simp add: clean_eq_dropna dropna_def read_csv_def)












lemma label_column_clean_eq:
  "label_column (clean (read_csv parsed)) =
     Inr ((clean (read_csv parsed))\<lparr>rows :=
        map (\<lambda>r. (fst r, (snd r)[11 := apply_label (snd r ! 11)]))
          (rows (clean (read_csv parsed)))\<rparr>)"
  by (simp add: label_column_def columns_clean index_of_quality)










lemma those_map_Some: "those (map Some xs) = Some xs"
  by (induction xs) simp_all

lemma validate_data_numeric:
  assumes "length (coef m) = 11"
  shows "validate_data m [[Some x1, Some x2, Some x3, Some x4, Some x5, Some x6, Some x7,
            Some x8, Some x9, Some x10, Some x11]] =
         Inr [[x1, x2, x3, x4, x5, x6, x7, x8, x9, x10, x11]]"
  by (simp add: validate_data_def assms)

lemma those_None: "None \<in> set xs \<Longrightarrow> those xs = None"
  by (induction xs) (auto split: option.splits)

lemma validate_data_missing:
  assumes "None \<in> set vs"
  shows "validate_data m [vs] = Inl ValueError"
  by (simp add: validate_data_def those_None[OF assms])

text \<open>
  Claim C5. The held model was fitted on the eleven columns of \<open>X\<close>, so it has eleven
  weights. For every eleven numbers, \<open>predict\<close> on the held model yields one label,
  0 or 1, and \<open>predict_quality\<close> returns the good-quality string exactly when the label
  is 1 and the bad-quality string exactly when it is 0; the globals stay as they are.
\<close>

theorem predict_quality_two_strings:
  assumes "length (coef (logreg_model s)) = 11"
  shows "\<exists>p. predict (logreg_model s)
               [[Some x1, Some x2, Some x3, Some x4, Some x5, Some x6, Some x7, Some x8,
                 Some x9, Some x10, Some x11]] = Inr [p] \<and>
             (p = 0 \<or> p = 1) \<and>
             (predict_quality s n_clicks (Some x1) (Some x2) (Some x3) (Some x4) (Some x5)
                (Some x6) (Some x7) (Some x8) (Some x9) (Some x10) (Some x11) =
                (Inr ''This wine is predicted to be good quality.'', s)) = (p = 1) \<and>
             (predict_quality s n_clicks (Some x1) (Some x2) (Some x3) (Some x4) (Some x5)
                (Some x6) (Some x7) (Some x8) (Some x9) (Some x10) (Some x11) =
                (Inr ''This wine is predicted to be bad quality.'', s)) = (p = 0)"
  by (simp add: predict_quality_def predict_def validate_data_numeric[OF assms])

text \<open>The demo model has eleven weights; a wine with alcohol 12.8 is predicted good.\<close>

theorem predict_quality_two_strings_witness:
  "predict_quality demo_service 1 (Some 7.3) (Some 0.65) (Some 0) (Some 1.2) (Some 0.065)
     (Some 15) (Some 21) (Some 0.9946) (Some 3.39) (Some 0.47) (Some 12.8) =
     (Inr ''This wine is predicted to be good quality.'', demo_service) \<and>
   predict demo_model
     [[Some 7.3, Some 0.65, Some 0, Some 1.2, Some 0.065, Some 15, Some 21, Some 0.9946,
       Some 3.39, Some 0.47, Some 12.8]] = Inr [1]"
proof -
  have h: "length (coef (logreg_model demo_service)) = 11"
    by (simp add: demo_service_def demo_model_def)
  have p: "predict demo_model
     [[Some 7.3, Some 0.65, Some 0, Some 1.2, Some 0.065, Some 15, Some 21, Some 0.9946,
       Some 3.39, Some 0.47, Some 12.8]] = Inr [1]"
    by (simp add: predict_def validate_data_def demo_model_def decision_function_def)
  from predict_quality_two_strings[OF h, of "7.3" "0.65" 0 "1.2" "0.065" 15 21 "0.9946" "3.39" "0.47" "12.8" 1]
  show ?thesis using p by (simp add: demo_service_def)
qed

text \<open>
  Claim C6, as the code has it. When any of the eleven values is missing, the callback
  returns no prediction: the ValueError of scikit-learn's input validation leaves it, and
  the data and the model are the ones held before the call.
\<close>

theorem predict_quality_missing_value:
  assumes "None \<in> set [fixed_acidity, volatile_acidity, citric_acid, residual_sugar, chlorides,
             free_sulfur_dioxide, total_sulfur_dioxide, density, ph, sulphates, alcohol]"
  shows "predict_quality s n_clicks fixed_acidity volatile_acidity citric_acid residual_sugar
           chlorides free_sulfur_dioxide total_sulfur_dioxide density ph sulphates alcohol =
         (Inl ValueError, s)"
  by (simp add: predict_quality_def predict_def validate_data_missing[OF assms])

text \<open>
  Claim C6 as stated fails on the error kind: a request with no value for alcohol ends
  in ValueError. app.py defines no InvalidInputError and validates nothing itself.
\<close>

theorem predict_quality_missing_alcohol:
  "predict_quality demo_service 1 (Some 7.3) (Some 0.65) (Some 0) (Some 1.2) (Some 0.065)
     (Some 15) (Some 21) (Some 0.9946) (Some 3.39) (Some 0.47) None =
     (Inl ValueError, demo_service) \<and>
   fst (predict_quality demo_service 1 (Some 7.3) (Some 0.65) (Some 0) (Some 1.2) (Some 0.065)
     (Some 15) (Some 21) (Some 0.9946) (Some 3.39) (Some 0.47) None) \<noteq> Inl InvalidInputError"
  by (simp add: predict_quality_def predict_def validate_data_def)

text \<open>
  The request that Dash sends when the page loads (no click yet, every field empty)
  satisfies the hypothesis.
\<close>

theorem predict_quality_missing_value_witness:
  "predict_quality demo_service 0 None None None None None None None None None None None =
     (Inl ValueError, demo_service)"
  using predict_quality_missing_value[of None None None None None None None None None None None demo_service 0]
  by simp

text \<open>
  Claim C10. The result of \<open>predict_quality\<close> is the same for two click counts and two
  datasets as long as the model and the eleven values are the same, and the call
  returns the globals it was given.
\<close>

theorem predict_quality_ignores_n_clicks:
  "fst (predict_quality \<lparr>data = d, logreg_model = m\<rparr> n_clicks v1 v2 v3 v4 v5 v6 v7 v8 v9 v10 v11) =
   fst (predict_quality \<lparr>data = d', logreg_model = m\<rparr> n_clicks' v1 v2 v3 v4 v5 v6 v7 v8 v9 v10 v11) \<and>
   predict_quality s n_clicks v1 v2 v3 v4 v5 v6 v7 v8 v9 v10 v11 =
   predict_quality s n_clicks' v1 v2 v3 v4 v5 v6 v7 v8 v9 v10 v11 \<and>
   snd (predict_quality s n_clicks v1 v2 v3 v4 v5 v6 v7 v8 v9 v10 v11) = s"
  by (simp add: predict_quality_def split: sum.splits)


lemma index_of_None: "(index_of a xs = None) = (a \<notin> set xs)"
  by (induction xs) auto

lemma index_of_Some: "a \<in> set xs \<Longrightarrow> \<exists>i. index_of a xs = Some i \<and> i < length xs \<and> xs ! i = a"
  by (induction xs) auto

text \<open>
  Claim C7, as the code has it. With the twelve columns of the wine file in \<open>data\<close>:
  when either name is not one of them the callback ends in plotly's ValueError and the
  globals are unchanged; when both are, it returns a figure with one point per record
  of \<open>data\<close>, made of the record's values in the two columns and its quality label.
\<close>

theorem update_correlation_plot_cases:
  assumes "columns (data s) = csv_header"
  shows "(x_feature \<notin> set csv_header \<or> y_feature \<notin> set csv_header \<longrightarrow>
            update_correlation_plot s x_feature y_feature = (Inl ValueError, s)) \<and>
         (x_feature \<in> set csv_header \<and> y_feature \<in> set csv_header \<longrightarrow>
            (\<exists>i j fig.
               index_of x_feature csv_header = Some i \<and>
               index_of y_feature csv_header = Some j \<and>
               update_correlation_plot s x_feature y_feature = (Inr fig, s) \<and>
               points fig = map (\<lambda>r. (snd r ! i, snd r ! j, snd r ! 11)) (rows (data s)) \<and>
               length (points fig) = length (rows (data s))))"
proof (intro conjI impI)
  assume "x_feature \<notin> set csv_header \<or> y_feature \<notin> set csv_header"
  then have "index_of x_feature csv_header = None \<or> index_of y_feature csv_header = None"
    by (simp add: index_of_None)
  then show "update_correlation_plot s x_feature y_feature = (Inl ValueError, s)"
    by (auto simp: update_correlation_plot_def px_scatter_def assms split: option.splits)
next
  assume a: "x_feature \<in> set csv_header \<and> y_feature \<in> set csv_header"
  have ax: "x_feature \<in> set csv_header" and ay: "y_feature \<in> set csv_header"
    using a by simp_all
  obtain i where i: "index_of x_feature csv_header = Some i"
    using index_of_Some[OF ax] by blast
  obtain j where j: "index_of y_feature csv_header = Some j"
    using index_of_Some[OF ay] by blast
  let ?fig = "\<lparr>title = ''Correlation between '' @ x_feature @ '' and '' @ y_feature,
               points = map (\<lambda>r. (snd r ! i, snd r ! j, snd r ! 11)) (rows (data s))\<rparr>"
  have "update_correlation_plot s x_feature y_feature = (Inr ?fig, s)"
    by (simp add: update_correlation_plot_def px_scatter_def assms i j index_of_quality)
  then show "\<exists>i j fig.
               index_of x_feature csv_header = Some i \<and>
               index_of y_feature csv_header = Some j \<and>
               update_correlation_plot s x_feature y_feature = (Inr fig, s) \<and>
               points fig = map (\<lambda>r. (snd r ! i, snd r ! j, snd r ! 11)) (rows (data s)) \<and>
               length (points fig) = length (rows (data s))"
    using i j by (intro exI[of _ i] exI[of _ j] exI[of _ ?fig]) simp
qed

text \<open>
  Claim C7 as stated fails on the error kind: the unknown name \<open>bogus_feature\<close> ends in
  ValueError. app.py defines no UnknownFeatureError and checks no name itself.
\<close>

theorem update_correlation_plot_bogus_feature:
  "update_correlation_plot demo_service ''bogus_feature'' ''alcohol'' =
     (Inl ValueError, demo_service) \<and>
   fst (update_correlation_plot demo_service ''bogus_feature'' ''alcohol'') \<noteq>
     Inl UnknownFeatureError"
  by (simp add: update_correlation_plot_def px_scatter_def demo_service_def
      two_wines_labelled_def csv_header_def)

text \<open>Both cases of the theorem on the demo service.\<close>

theorem update_correlation_plot_cases_witness:
  "update_correlation_plot demo_service ''bogus_feature'' ''alcohol'' =
     (Inl ValueError, demo_service) \<and>
   (\<exists>fig. update_correlation_plot demo_service ''alcohol'' ''pH'' = (Inr fig, demo_service) \<and>
      length (points fig) = 2)"
proof -
  have h: "columns (data demo_service) = csv_header"
    by (simp add: demo_service_def two_wines_labelled_def)
  have r: "length (rows (data demo_service)) = 2"
    by (simp add: demo_service_def two_wines_labelled_def)
  have b: "''bogus_feature'' \<notin> set csv_header" by (simp add: csv_header_def)
  have a: "''alcohol'' \<in> set csv_header" "''pH'' \<in> set csv_header"
    by (simp_all add: csv_header_def)
  from update_correlation_plot_cases[OF h, of "''bogus_feature''" "''alcohol''"] b
  have 1: "update_correlation_plot demo_service ''bogus_feature'' ''alcohol'' =
     (Inl ValueError, demo_service)" by blast
  from update_correlation_plot_cases[OF h, of "''alcohol''" "''pH''"] a
  have 2: "\<exists>fig. update_correlation_plot demo_service ''alcohol'' ''pH'' = (Inr fig, demo_service) \<and>
      length (points fig) = 2" unfolding r by blast
  from 1 2 show ?thesis by blast
qed


lemma clean_rows_from_parsed:
  "r \<in> set (rows (clean (read_csv parsed))) \<Longrightarrow> snd r \<in> set parsed"
  by (cases r) (auto simp: clean_eq_dropna dropna_def read_csv_def dest: set_zip_rightD)

lemma apply_label_cases: "apply_label c = Some 0 \<or> apply_label c = Some 1"
  by (simp add: apply_label_def quality_label_def split: option.splits)

lemma correlation_with_quality:
  assumes c: "columns (data s) = csv_header" and x: "x_feature \<in> set csv_header"
  shows "\<exists>i fig. index_of x_feature csv_header = Some i \<and>
           update_correlation_plot s x_feature ''quality'' = (Inr fig, s) \<and>
           points fig = map (\<lambda>r. (snd r ! i, snd r ! 11, snd r ! 11)) (rows (data s))"
proof -
  obtain i where i: "index_of x_feature csv_header = Some i"
    using index_of_Some[OF x] by blast
  let ?fig = "\<lparr>title = ''Correlation between '' @ x_feature @ '' and '' @ ''quality'',
               points = map (\<lambda>r. (snd r ! i, snd r ! 11, snd r ! 11)) (rows (data s))\<rparr>"
  have "update_correlation_plot s x_feature ''quality'' = (Inr ?fig, s)"
    by (simp add: update_correlation_plot_def px_scatter_def c i index_of_quality)
  then show ?thesis using i by (intro exI[of _ i] exI[of _ ?fig]) simp
qed

text \<open>
  Claim C3, as the code has it. For a file whose lines have twelve cells: after line 42
  every record of \<open>data\<close> is the cleaned record with its quality cell replaced by the
  label of that cell, 0 or 1, so the raw score is no longer in the record; \<open>X\<close>, from
  which the training and test rows are taken, has the eleven feature columns and no
  column named quality; and the correlation plot of any column against quality shows
  the labels.
\<close>

theorem label_column_replaces_quality:
  assumes lines: "\<forall>l\<in>set parsed. length l = 12"
  shows "\<exists>frame X.
           label_column (clean (read_csv parsed)) = Inr frame \<and>
           columns frame = csv_header \<and>
           map fst (rows frame) = map fst (rows (clean (read_csv parsed))) \<and>
           map snd (rows frame) =
             map (\<lambda>r. take 11 (snd r) @ [apply_label (snd r ! 11)])
               (rows (clean (read_csv parsed))) \<and>
           (\<forall>r\<in>set (rows frame). snd r ! 11 = Some 0 \<or> snd r ! 11 = Some 1) \<and>
           drop_column ''quality'' frame = Inr X \<and>
           columns X = butlast csv_header \<and>
           length (columns X) = 11 \<and>
           ''quality'' \<notin> set (columns X) \<and>
           map snd (rows X) = map (\<lambda>r. take 11 (snd r)) (rows (clean (read_csv parsed))) \<and>
           (\<forall>m x_feature. x_feature \<in> set csv_header \<longrightarrow>
              (\<exists>fig. update_correlation_plot \<lparr>data = frame, logreg_model = m\<rparr> x_feature ''quality'' =
                       (Inr fig, \<lparr>data = frame, logreg_model = m\<rparr>) \<and>
                     map (\<lambda>p. fst (snd p)) (points fig) =
                       map (\<lambda>r. apply_label (snd r ! 11)) (rows (clean (read_csv parsed)))))"
proof -
  let ?c = "rows (clean (read_csv parsed))"
  let ?lab = "\<lambda>r. (fst r, (snd r)[11 := apply_label (snd r ! 11)])"
  let ?frame = "(clean (read_csv parsed))\<lparr>rows := map ?lab ?c\<rparr>"
  let ?X = "\<lparr>columns = butlast csv_header,
             rows = map (\<lambda>r. (fst r, take 11 (snd r) @ drop 12 (snd r))) (rows ?frame)\<rparr>"
  have len: "length (snd r) = 12" if "r \<in> set ?c" for r
    using clean_rows_from_parsed[OF that] lines by blast
  have upd: "(snd r)[11 := v] = take 11 (snd r) @ [v]" if "r \<in> set ?c" for r v
  proof -
    have l: "length (snd r) = 12" using that by (rule len)
    have "(snd r)[11 := v] = take 11 (snd r) @ v # drop 12 (snd r)"
      using l by (simp add: upd_conv_take_nth_drop)
    then show ?thesis using l by simp
  qed
  have f1: "label_column (clean (read_csv parsed)) = Inr ?frame"
    by (rule label_column_clean_eq)
  have f2: "columns ?frame = csv_header" by (simp add: columns_clean)
  have f3: "map fst (rows ?frame) = map fst ?c" by (simp add: comp_def)
  have f4: "map snd (rows ?frame) = map (\<lambda>r. take 11 (snd r) @ [apply_label (snd r ! 11)]) ?c"
    by (simp add: comp_def upd)
  have f5: "\<forall>r\<in>set (rows ?frame). snd r ! 11 = Some 0 \<or> snd r ! 11 = Some 1"
    using apply_label_cases by (auto simp: upd nth_append len)
  have f6: "drop_column ''quality'' ?frame = Inr ?X"
    by (simp add: drop_column_def f2 index_of_quality) (simp add: csv_header_def)
  have f7: "columns ?X = butlast csv_header" by simp
  have f8: "length (columns ?X) = 11" by (simp add: csv_header_def)
  have f9: "''quality'' \<notin> set (columns ?X)" by (simp add: csv_header_def)
  have f10: "map snd (rows ?X) = map (\<lambda>r. take 11 (snd r)) ?c"
    by (simp add: comp_def upd len)
  have f11: "\<forall>m x_feature. x_feature \<in> set csv_header \<longrightarrow>
              (\<exists>fig. update_correlation_plot \<lparr>data = ?frame, logreg_model = m\<rparr> x_feature ''quality'' =
                       (Inr fig, \<lparr>data = ?frame, logreg_model = m\<rparr>) \<and>
                     map (\<lambda>p. fst (snd p)) (points fig) =
                       map (\<lambda>r. apply_label (snd r ! 11)) ?c)"
  proof (intro allI impI)
    fix m :: model and x_feature :: string
    assume x: "x_feature \<in> set csv_header"
    let ?s = "\<lparr>data = ?frame, logreg_model = m\<rparr>"
    have c: "columns (data ?s) = csv_header" by (simp add: columns_clean)
    from correlation_with_quality[OF c x] obtain i fig where
      u: "update_correlation_plot ?s x_feature ''quality'' = (Inr fig, ?s)"
      and pts: "points fig = map (\<lambda>r. (snd r ! i, snd r ! 11, snd r ! 11)) (rows (data ?s))"
      by blast
    have "map (\<lambda>p. fst (snd p)) (points fig) = map (\<lambda>r. apply_label (snd r ! 11)) ?c"
      unfolding pts by (simp add: comp_def upd nth_append len)
    with u show "\<exists>fig. update_correlation_plot ?s x_feature ''quality'' = (Inr fig, ?s) \<and>
                     map (\<lambda>p. fst (snd p)) (points fig) =
                       map (\<lambda>r. apply_label (snd r ! 11)) ?c"
      by blast
  qed
  show ?thesis
    apply (rule exI[of _ ?frame])
    apply (rule exI[of _ ?X])
    apply (intro conjI)
              apply (rule f1)
             apply (rule f2)
            apply (rule f3)
           apply (rule f4)
          apply (rule f5)
         apply (rule f6)
        apply (rule f7)
       apply (rule f8)
      apply (rule f9)
     apply (rule f10)
    apply (rule f11)
    done
qed


lemma upt_2: "[0..<2] = [0, 1]"
  by (simp add: upt_rec)

lemma rows_clean_two_wines:
  "rows (clean (read_csv two_wines)) = [(0, two_wines ! 0), (1, two_wines ! 1)]"
  by (simp add: clean_eq_dropna dropna_def read_csv_def two_wines_def upt_2)

text \<open>
  Claim C3 as stated fails: the wine of raw quality 7 is held with quality 1 after
  line 42, the value 7 is in none of its fields, and the correlation plot of alcohol
  against quality shows 0 and 1, not 5 and 7.
\<close>

theorem label_column_overwrites_raw_quality:
  "get_column ''quality'' (clean (read_csv two_wines)) = Inr [(0, Some 5), (1, Some 7)] \<and>
   label_column (clean (read_csv two_wines)) = Inr two_wines_labelled \<and>
   get_column ''quality'' two_wines_labelled = Inr [(0, Some 0), (1, Some 1)] \<and>
   Some 7 \<notin> set (snd (rows two_wines_labelled ! 1)) \<and>
   update_correlation_plot demo_service ''alcohol'' ''quality'' =
     (Inr \<lparr>title = ''Correlation between alcohol and quality'',
           points = [(Some 9.4, Some 0, Some 0), (Some 12.8, Some 1, Some 1)]\<rparr>,
      demo_service)"
proof -
  have c: "columns (clean (read_csv two_wines)) = csv_header" by (rule columns_clean)
  have ia: "index_of ''alcohol'' csv_header = Some 10" by (simp add: csv_header_def)
  have 1: "get_column ''quality'' (clean (read_csv two_wines)) = Inr [(0, Some 5), (1, Some 7)]"
    by (simp add: get_column_def c index_of_quality rows_clean_two_wines) (simp add: two_wines_def)
  have 2: "label_column (clean (read_csv two_wines)) = Inr two_wines_labelled"
    unfolding label_column_clean_eq
    by (simp add: rows_clean_two_wines two_wines_labelled_def clean_eq_dropna dropna_def
        read_csv_def)
      (simp add: two_wines_def apply_label_def quality_label_def)
  have 3: "get_column ''quality'' two_wines_labelled = Inr [(0, Some 0), (1, Some 1)]"
    by (simp add: get_column_def two_wines_labelled_def index_of_quality)
  have 4: "Some 7 \<notin> set (snd (rows two_wines_labelled ! 1))"
    by (simp add: two_wines_labelled_def)
  have 5: "update_correlation_plot demo_service ''alcohol'' ''quality'' =
     (Inr \<lparr>title = ''Correlation between alcohol and quality'',
           points = [(Some 9.4, Some 0, Some 0), (Some 12.8, Some 1, Some 1)]\<rparr>,
      demo_service)"
    by (simp add: update_correlation_plot_def px_scatter_def demo_service_def
        two_wines_labelled_def ia index_of_quality)
  from 1 2 3 4 5 show ?thesis by simp
qed

text \<open>Both lines of \<open>two_wines\<close> have twelve cells.\<close>

theorem label_column_replaces_quality_witness:
  "\<exists>frame X fig. label_column (clean (read_csv two_wines)) = Inr frame \<and>
     drop_column ''quality'' frame = Inr X \<and> length (columns X) = 11 \<and>
     ''quality'' \<notin> set (columns X) \<and>
     update_correlation_plot \<lparr>data = frame, logreg_model = demo_model\<rparr> ''alcohol'' ''quality'' =
       (Inr fig, \<lparr>data = frame, logreg_model = demo_model\<rparr>)"
proof -
  have h: "\<forall>l\<in>set two_wines. length l = 12" by (simp add: two_wines_def)
  have a: "''alcohol'' \<in> set csv_header" by (simp add: csv_header_def)
  from label_column_replaces_quality[OF h] obtain frame X where
    f: "label_column (clean (read_csv two_wines)) = Inr frame"
      "drop_column ''quality'' frame = Inr X" "length (columns X) = 11"
      "''quality'' \<notin> set (columns X)"
    and c: "\<forall>m x_feature. x_feature \<in> set csv_header \<longrightarrow>
              (\<exists>fig. update_correlation_plot \<lparr>data = frame, logreg_model = m\<rparr> x_feature ''quality'' =
                       (Inr fig, \<lparr>data = frame, logreg_model = m\<rparr>) \<and>
                     map (\<lambda>p. fst (snd p)) (points fig) =
                       map (\<lambda>r. apply_label (snd r ! 11)) (rows (clean (read_csv two_wines))))"
    by (elim exE conjE) (rule that)
  from c a obtain fig where
    "update_correlation_plot \<lparr>data = frame, logreg_model = demo_model\<rparr> ''alcohol'' ''quality'' =
       (Inr fig, \<lparr>data = frame, logreg_model = demo_model\<rparr>)"
    by blast
  with f show ?thesis by blast
qed

lemma binary_cells:
  assumes "set ys \<subseteq> {Some 0, Some (1::real)}"
  shows "\<exists>t. ys = map Some t \<and> set t \<subseteq> {0, 1}"
  using assms
proof (induction ys)
  case Nil
  then show ?case by simp
next
  case (Cons y ys)
  then obtain t where t: "ys = map Some t" "set t \<subseteq> {0, 1}" by auto
  from Cons.prems obtain v where v: "y = Some v" "v = 0 \<or> v = 1" by auto
  have "y # ys = map Some (v # t) \<and> set (v # t) \<subseteq> {0, 1}" using t v by auto
  then show ?case by (rule exI[of _ "v # t"])
qed

lemma check_targets_binary:
  assumes "length t = length p" "set t \<subseteq> {0, 1}" "set p \<subseteq> {0, 1}"
  shows "check_targets (map Some t) (map Some p) = Inr (t, p)"
proof -
  have "\<forall>v\<in>set (t @ p). of_int \<lfloor>v\<rfloor> = v" using assms(2,3) by auto
  then have "list_all (\<lambda>v. of_int \<lfloor>v\<rfloor> = v) (t @ p)" by (simp add: list_all_iff)
  then show ?thesis using assms(1) by (simp add: check_targets_def those_map_Some)
qed

lemma check_set_wise_labels_binary:
  assumes "set t \<subseteq> {0, 1}" "set p \<subseteq> {0, 1}"
  shows "check_set_wise_labels t p = Inr ()"
proof -
  have s: "set (t @ p) \<subseteq> {0, 1}" using assms by simp
  have "card (set (t @ p)) \<le> card {0, 1::real}" using s by (intro card_mono) simp_all
  then have l: "length (remdups (t @ p)) \<le> 2" by (simp add: length_remdups_card_conv)
  have "length (remdups (t @ p)) \<le> 1" if "1 \<notin> set (t @ p)"
  proof -
    have "set (t @ p) \<subseteq> {0}" using s that by auto
    then have "card (set (t @ p)) \<le> card {0::real}" by (intro card_mono) simp_all
    then show ?thesis by (simp add: length_remdups_card_conv)
  qed
  then have "\<not> (1 \<notin> set (remdups (t @ p)) \<and> length (remdups (t @ p)) \<ge> 2)" by auto
  then show ?thesis using l unfolding check_set_wise_labels_def Let_def by auto
qed

lemma tp_sum_no_pred: "1 \<notin> set p \<Longrightarrow> tp_sum t p = 0"
  unfolding tp_sum_def by (auto simp: filter_empty_conv dest: set_zip_rightD)

lemma tp_sum_no_true: "1 \<notin> set t \<Longrightarrow> tp_sum t p = 0"
  unfolding tp_sum_def by (auto simp: filter_empty_conv dest: set_zip_leftD)

lemma prf_divide_zero: "prf_divide 0 d = 0"
  by (simp add: prf_divide_def)

text \<open>
  Claim C8, as the code has it. For a non-empty test set with labels and predictions
  in \<open>{0, 1}\<close>, none of the four metric calls raises and each returns a number, not
  NaN; accuracy lies in \<open>[0, 1]\<close>; without positive predictions precision and F1 are
  \<open>0.0\<close>, and without positive labels recall and F1 are \<open>0.0\<close>.
\<close>

theorem metrics_zero_division:
  assumes len: "length y_test = length y_pred" and ne: "y_test \<noteq> []"
    and yt: "set y_test \<subseteq> {Some 0, Some 1}" and yp: "set y_pred \<subseteq> {Some 0, Some 1}"
  shows "\<exists>a p r f.
           accuracy_score y_test y_pred = Inr (Some a) \<and> 0 \<le> a \<and> a \<le> 1 \<and>
           precision_score y_test y_pred = Inr (Some p) \<and>
           recall_score y_test y_pred = Inr (Some r) \<and>
           f1_score y_test y_pred = Inr (Some f) \<and>
           (Some 1 \<notin> set y_pred \<longrightarrow> p = 0 \<and> f = 0) \<and>
           (Some 1 \<notin> set y_test \<longrightarrow> r = 0 \<and> f = 0)"
proof -
  obtain t where t: "y_test = map Some t" "set t \<subseteq> {0, 1}"
    using binary_cells[OF yt] by blast
  obtain p where p: "y_pred = map Some p" "set p \<subseteq> {0, 1}"
    using binary_cells[OF yp] by blast
  have l: "length t = length p" using len t(1) p(1) by simp
  have tne: "t \<noteq> []" using ne t(1) by simp
  have ct: "check_targets y_test y_pred = Inr (t, p)"
    unfolding t(1) p(1) using l t(2) p(2) by (rule check_targets_binary)
  have cs: "check_set_wise_labels t p = Inr ()"
    using t(2) p(2) by (rule check_set_wise_labels_binary)
  let ?a = "real (length (filter (\<lambda>ab. fst ab = snd ab) (zip t p))) / real (length t)"
  let ?p = "prf_divide (tp_sum t p) (pred_sum p)"
  let ?r = "prf_divide (tp_sum t p) (true_sum t)"
  let ?f = "2 * ?p * ?r / (if ?p + ?r = 0 then 1 else ?p + ?r)"
  have a: "accuracy_score y_test y_pred = Inr (Some ?a)"
    by (simp add: accuracy_score_def ct tne)
  have "length (filter (\<lambda>ab. fst ab = snd ab) (zip t p)) \<le> length (zip t p)"
    by (rule length_filter_le)
  then have le: "length (filter (\<lambda>ab. fst ab = snd ab) (zip t p)) \<le> length t"
    using l by simp
  have a0: "0 \<le> ?a" by simp
  have a1: "?a \<le> 1" using le tne by (simp add: divide_le_eq_1)
  have pr: "precision_score y_test y_pred = Inr (Some ?p)"
    by (simp add: precision_score_def ct cs)
  have re: "recall_score y_test y_pred = Inr (Some ?r)"
    by (simp add: recall_score_def ct cs)
  have f1: "f1_score y_test y_pred = Inr (Some ?f)"
    by (simp add: f1_score_def ct cs Let_def)
  have np: "?p = 0 \<and> ?f = 0" if "Some 1 \<notin> set y_pred"
  proof -
    have "1 \<notin> set p" using that p(1) by auto
    then have "tp_sum t p = 0" by (rule tp_sum_no_pred)
    then show ?thesis by (simp add: prf_divide_zero)
  qed
  have nt: "?r = 0 \<and> ?f = 0" if "Some 1 \<notin> set y_test"
  proof -
    have "1 \<notin> set t" using that t(1) by auto
    then have "tp_sum t p = 0" by (rule tp_sum_no_true)
    then show ?thesis by (simp add: prf_divide_zero)
  qed
  show ?thesis
    apply (rule exI[of _ ?a], rule exI[of _ ?p], rule exI[of _ ?r], rule exI[of _ ?f])
    apply (intro conjI impI)
             apply (rule a)
            apply (rule a0)
           apply (rule a1)
          apply (rule pr)
         apply (rule re)
        apply (rule f1)
    using np nt apply blast+
    done
qed

text \<open>
  Claim C8 as stated fails on the reported value: with no positive prediction the
  denominator of precision is zero and \<open>precision_score\<close> returns \<open>0.0\<close>, not NaN;
  likewise F1, and recall when there is no positive label.
\<close>

theorem precision_without_positive_predictions:
  "precision_score [Some 0, Some 1] [Some 0, Some 0] = Inr (Some 0) \<and>
   precision_score [Some 0, Some 1] [Some 0, Some 0] \<noteq> Inr None \<and>
   f1_score [Some 0, Some 1] [Some 0, Some 0] = Inr (Some 0) \<and>
   recall_score [Some 0, Some 0] [Some 0, Some 1] = Inr (Some 0)"
  by (simp add: precision_score_def recall_score_def f1_score_def check_targets_def
      check_set_wise_labels_def prf_divide_def tp_sum_def pred_sum_def true_sum_def)

text \<open>A test set of two wines, one good, both predicted bad.\<close>

theorem metrics_zero_division_witness:
  "\<exists>a r. accuracy_score [Some 0, Some 1] [Some 0, Some 0] = Inr (Some a) \<and>
     precision_score [Some 0, Some 1] [Some 0, Some 0] = Inr (Some 0) \<and>
     recall_score [Some 0, Some 1] [Some 0, Some 0] = Inr (Some r) \<and>
     f1_score [Some 0, Some 1] [Some 0, Some 0] = Inr (Some 0)"
proof -
  have h: "length [Some 0, Some (1::real)] = length [Some 0, Some (0::real)]"
    "[Some 0, Some (1::real)] \<noteq> []"
    "set [Some 0, Some 1] \<subseteq> {Some 0, Some (1::real)}"
    "set [Some 0, Some 0] \<subseteq> {Some 0, Some (1::real)}"
    by simp_all
  have n: "Some 1 \<notin> set [Some 0, Some (0::real)]" by simp
  from metrics_zero_division[OF h] obtain a p r f where
    "accuracy_score [Some 0, Some 1] [Some 0, Some 0] = Inr (Some a)"
    "precision_score [Some 0, Some 1] [Some 0, Some 0] = Inr (Some p)"
    "recall_score [Some 0, Some 1] [Some 0, Some 0] = Inr (Some r)"
    "f1_score [Some 0, Some 1] [Some 0, Some 0] = Inr (Some f)"
    "Some 1 \<notin> set [Some 0, Some (0::real)] \<longrightarrow> p = 0 \<and> f = 0"
    by (elim exE conjE) (rule that)
  then show ?thesis using n by blast
qed


subsection \<open>The ROC curve: index selections\<close>





subsection \<open>The ROC curve: ranked samples\<close>



































end
